theory Spec2Isabelle
  imports Main
begin

section \<open>The containerd client (client/client.go)\<close>

text \<open>
  A shallow embedding of the client: construction and reconnection, the lazily cached
  default runtime, snapshotter resolution, Fetch and Push, and the checkpoint index
  writer. The Go code is sequential under its mutexes (connMu, runtime.mut), so each
  method is a function from the client and the outside world to a result, the client
  and the world afterwards. Calls that leave the client (dialling, closing a
  connection, the leases, namespaces and content services, the resolver, the transfer
  primitives) append an event to the world's trace; what they answer is read from an
  environment of oracles, passed on each call so that it may change between calls.
\<close>

subsection \<open>Errors\<close>

text \<open>
  Go errors: the errdefs sentinels, errors of other packages, and
  \<^verbatim>\<open>fmt.Errorf(format, args..., err)\<close> with a \<^verbatim>\<open>%w\<close> verb, which
  keeps the format, its string arguments and the wrapped error. A nil pointer dereference
  is a panic.
\<close>

datatype error =
    ErrUnavailable
  | ErrNotImplemented
  | ErrNotFound
  | ErrInvalidArgument
  | Foreign string
  | Errorf string "string list" error
  | Panic string

text \<open>\<^verbatim>\<open>errors.Is\<close>: the target is the error or one of those it wraps.\<close>

fun errors_Is :: "error \<Rightarrow> error \<Rightarrow> bool" where
  "errors_Is (Errorf f args e) t = (Errorf f args e = t \<or> errors_Is e t)"
| "errors_Is e t = (e = t)"

subsection \<open>Contexts, events and the world\<close>

text \<open>A \<^verbatim>\<open>context.Context\<close> carries a namespace and a lease, each optional.\<close>

record Context =
  ctx_namespace :: "string option"
  ctx_lease :: "nat option"

definition Background :: Context where
  "Background = \<lparr>ctx_namespace = None, ctx_lease = None\<rparr>"

datatype CallOption =
    MaxCallRecvMsgSize int
  | MaxCallSendMsgSize int
  | CallOpt nat

text \<open>
  grpc dial options. \<open>WithConnectParams d t\<close> is the default backoff configuration with
  MaxDelay \<open>d\<close>, and MinConnectTimeout \<open>t\<close> (nanoseconds); \<open>DialOpt n\<close> is an
  option supplied by the caller.
\<close>

datatype DialOption =
    WithTransportCredentials_insecure
  | WithConnectParams int int
  | WithContextDialer
  | WithDefaultCallOptions "CallOption list"
  | WithChainUnaryInterceptor string
  | WithChainStreamInterceptor string
  | DialOpt nat

record Platform =
  Architecture :: string
  OS :: string
  Variant :: string

text \<open>
  \<^verbatim>\<open>platforms.MatchComparer\<close>: \<^verbatim>\<open>platforms.All\<close>, \<^verbatim>\<open>platforms.Any(ps...)\<close>,
  \<^verbatim>\<open>platforms.Default()\<close>, or a matcher supplied by the caller.
\<close>

datatype MatchComparer =
    MatchAll
  | MatchAny "Platform list"
  | MatchDefault
  | Matcher nat

record Descriptor =
  MediaType :: string
  Digest :: string
  Size :: int

record Image =
  Name :: string
  Target :: Descriptor

text \<open>
  A service handle is a local override (identified by a number) or a proxy bound to the
  connection pointer read at the time of the lookup (\<open>None\<close> is the nil pointer).
\<close>

datatype service = Local nat | Remote "nat option"

datatype Snapshotter = LocalSnapshotter nat | RemoteSnapshotter "nat option" string

datatype event =
    Dial string "DialOption list"
  | ConnClose nat
  | LeaseCreate nat
  | LeaseCreateFailed
  | LeaseDelete nat
  | NamespaceLabels service string
  | FetchContent Context string
  | CreateImage Context Image
  | ResolvePusher string
  | PushContent Context nat Descriptor service "int option" "MatchComparer option"
  | WriteContent service string string string "string \<Rightarrow> string option"

record world =
  trace :: "event list"
  next_conn :: nat
  next_lease :: nat

definition emit :: "event \<Rightarrow> world \<Rightarrow> world" where
  "emit e w = w\<lparr>trace := trace w @ [e]\<rparr>"

subsection \<open>Client options and the client\<close>

text \<open>
  The \<^verbatim>\<open>services\<close> struct of overrides: a nil interface is \<open>None\<close>, a nil map
  is \<open>None\<close>.
\<close>

record services =
  contentStore :: "nat option"
  imageStore :: "nat option"
  containerStore :: "nat option"
  namespaceStore :: "nat option"
  snapshotters :: "(string \<Rightarrow> nat option) option"
  leasesService :: "nat option"

definition no_services :: services where
  "no_services = \<lparr>contentStore = None, imageStore = None, containerStore = None,
     namespaceStore = None, snapshotters = None, leasesService = None\<rparr>"

record clientOpts =
  o_defaultns :: string
  o_defaultRuntime :: string
  o_defaultPlatform :: "MatchComparer option"
  o_services :: "services option"
  o_timeout :: int
  o_dialOptions :: "DialOption list"
  o_extraDialOpts :: "DialOption list"
  o_callOptions :: "CallOption list"

text \<open>\<^verbatim>\<open>var copts clientOpts\<close>: the zero value.\<close>

definition zero_clientOpts :: clientOpts where
  "zero_clientOpts = \<lparr>o_defaultns = [], o_defaultRuntime = [], o_defaultPlatform = None,
     o_services = None, o_timeout = 0, o_dialOptions = [], o_extraDialOpts = [],
     o_callOptions = []\<rparr>"

type_synonym Opt = "clientOpts \<Rightarrow> error + clientOpts"

text \<open>
  The client. \<open>conn\<close> is the connection pointer; \<open>connector\<close> is the closure kept for
  Reconnect, that is the address and the dial options it captured.
\<close>

record Client =
  svcs :: services
  conn :: "nat option"
  defaultns :: string
  platform :: MatchComparer
  connector :: "(string \<times> DialOption list) option"
  runtime_value :: string

subsection \<open>The per-call configuration\<close>

text \<open>
  \<^verbatim>\<open>images.Handler\<close>: a handler of the caller, or \<^verbatim>\<open>images.Handlers(hs...)\<close>.
\<close>

datatype Handler = HandlerId nat | Handlers "Handler list"

text \<open>A resolver; client.go calls only its \<^verbatim>\<open>Pusher\<close> method.\<close>

record Resolver =
  Pusher :: "Context \<Rightarrow> string \<Rightarrow> error + nat"

text \<open>
  RemoteContext. The fields that client.go never reads (UnpackOpts, SnapshotterOpts,
  DownloadLimiter, ChildLabelMap) are left out; a nil matcher or wrapper is \<open>None\<close>.
\<close>

record RemoteContext =
  Resolver :: Resolver
  PlatformMatcher :: "MatchComparer option"
  Unpack :: bool
  Snapshotter :: string
  Labels :: "string \<Rightarrow> string option"
  BaseHandlers :: "Handler list"
  HandlerWrapper :: "(Handler \<Rightarrow> Handler) option"
  Platforms :: "string list"
  MaxConcurrentDownloads :: int
  ConcurrentLayerFetchBuffer :: int
  MaxConcurrentUploadedLayers :: int
  AllMetadata :: bool

text \<open>
  A RemoteOpt reads the client and rewrites the RemoteContext, or fails. The options are
  taken to be configuration setters, as all of the package's own are: they make no
  outside call.
\<close>

type_synonym RemoteOpt = "Client \<Rightarrow> RemoteContext \<Rightarrow> error + RemoteContext"

record Index =
  SchemaVersion :: int
  Manifests :: "Descriptor list"

subsection \<open>The environment\<close>

text \<open>
  What the packages outside client.go answer, and the constants of the
  \<^verbatim>\<open>defaults\<close> package, which differ between platforms. \<open>fetch_impl\<close> and
  \<open>createNewImage_impl\<close> stand for the methods \<^verbatim>\<open>fetch\<close> and
  \<^verbatim>\<open>createNewImage\<close> of the client, \<open>writeContent_impl\<close> for
  \<^verbatim>\<open>writeContent\<close>, \<open>PushContent_impl\<close> for \<^verbatim>\<open>remotes.PushContent\<close>.
\<close>

record env =
  grpc_NewClient :: "string \<Rightarrow> DialOption list \<Rightarrow> error option"
  DialAddress :: "string \<Rightarrow> string"
  DefaultMaxRecvMsgSize :: int
  DefaultMaxSendMsgSize :: int
  DefaultRuntime :: string
  DefaultRuntimeNSLabel :: string
  DefaultSnapshotter :: string
  DefaultSnapshotterNSLabel :: string
  NamespaceRequired :: "Context \<Rightarrow> error + string"
  ns_Labels :: "service \<Rightarrow> Context \<Rightarrow> string \<Rightarrow> error + (string \<Rightarrow> string option)"
  docker_NewResolver :: Resolver
  ParseAll :: "string list \<Rightarrow> error + Platform list"
  leases_Create :: "service \<Rightarrow> Context \<Rightarrow> error option"
  fetch_impl :: "Context \<Rightarrow> RemoteContext \<Rightarrow> string \<Rightarrow> int \<Rightarrow> error + Image"
  createNewImage_impl :: "Context \<Rightarrow> Image \<Rightarrow> error + Image"
  PushContent_impl :: "Context \<Rightarrow> nat \<Rightarrow> Descriptor \<Rightarrow> service \<Rightarrow> int option \<Rightarrow>
     MatchComparer option \<Rightarrow> (Handler \<Rightarrow> Handler) option \<Rightarrow> error option"
  json_Marshal :: "Index \<Rightarrow> error + string"
  writeContent_impl :: "service \<Rightarrow> string \<Rightarrow> string \<Rightarrow> string \<Rightarrow>
     (string \<Rightarrow> string option) \<Rightarrow> error + Descriptor"

subsection \<open>New, NewWithConn, Reconnect\<close>

text \<open>The loop over the options: the first error ends it.\<close>

fun apply_opts :: "Opt list \<Rightarrow> clientOpts \<Rightarrow> error + clientOpts" where
  "apply_opts [] copts = Inr copts"
| "apply_opts (opt # opts) copts =
     (case opt copts of Inl err \<Rightarrow> Inl err | Inr copts' \<Rightarrow> apply_opts opts copts')"

definition second :: int where
  "second = 1000000000"

text \<open>The dial options that New assembles when the address is not empty.\<close>

definition gopts_of :: "env \<Rightarrow> clientOpts \<Rightarrow> DialOption list" where
  "gopts_of ev copts =
     (let gopts = [WithTransportCredentials_insecure,
                   WithConnectParams (o_timeout copts) (o_timeout copts),
                   WithContextDialer];
          gopts = (if length (o_dialOptions copts) > 0 then o_dialOptions copts else gopts);
          gopts = gopts @ o_extraDialOpts copts;
          gopts = gopts @ [WithDefaultCallOptions
                    [MaxCallRecvMsgSize (DefaultMaxRecvMsgSize ev),
                     MaxCallSendMsgSize (DefaultMaxSendMsgSize ev)]];
          gopts = (if length (o_callOptions copts) > 0
                   then gopts @ [WithDefaultCallOptions (o_callOptions copts)] else gopts);
          gopts = (if o_defaultns copts \<noteq> []
                   then gopts @ [WithChainUnaryInterceptor (o_defaultns copts),
                                 WithChainStreamInterceptor (o_defaultns copts)]
                   else gopts)
      in gopts)"

text \<open>The connector closure, called: it dials and wraps a failure.\<close>

definition run_connector :: "env \<Rightarrow> string \<times> DialOption list \<Rightarrow> world \<Rightarrow> (error + nat) \<times> world" where
  "run_connector ev cn w =
     (let address = fst cn; gopts = snd cn; w1 = emit (Dial (DialAddress ev address) gopts) w
      in case grpc_NewClient ev (DialAddress ev address) gopts of
           Some err \<Rightarrow> (Inl (Errorf ''failed to dial %q: %w'' [address] err), w1)
         | None \<Rightarrow> (Inr (next_conn w1), w1\<lparr>next_conn := Suc (next_conn w1)\<rparr>))"

definition New :: "env \<Rightarrow> string \<Rightarrow> Opt list \<Rightarrow> world \<Rightarrow> (error + Client) \<times> world" where
  "New ev address opts w =
     (case apply_opts opts zero_clientOpts of
        Inl err \<Rightarrow> (Inl err, w)
      | Inr copts0 \<Rightarrow>
          let copts = (if o_timeout copts0 = 0 then copts0\<lparr>o_timeout := 10 * second\<rparr> else copts0);
              c = \<lparr>svcs = no_services, conn = None, defaultns = o_defaultns copts,
                   platform = MatchDefault, connector = None, runtime_value = []\<rparr>;
              c = (if o_defaultRuntime copts \<noteq> []
                   then c\<lparr>runtime_value := o_defaultRuntime copts\<rparr> else c);
              c = (case o_defaultPlatform copts of
                     Some p \<Rightarrow> c\<lparr>platform := p\<rparr>
                   | None \<Rightarrow> c\<lparr>platform := MatchDefault\<rparr>);
              c = (case o_services copts of Some s \<Rightarrow> c\<lparr>svcs := s\<rparr> | None \<Rightarrow> c)
          in if address \<noteq> [] then
               (let cn = (address, gopts_of ev copts)
                in case run_connector ev cn w of
                     (Inl err, w1) \<Rightarrow> (Inl err, w1)
                   | (Inr k, w1) \<Rightarrow>
                       (let c = c\<lparr>conn := Some k, connector := Some cn\<rparr>
                        in if o_services copts = None \<and> conn c = None
                           then (Inl (Errorf ''no grpc connection or services is available: %w'' []
                                        ErrUnavailable), w1)
                           else (Inr c, w1)))
             else if o_services copts = None \<and> conn c = None
                  then (Inl (Errorf ''no grpc connection or services is available: %w'' []
                               ErrUnavailable), w)
                  else (Inr c, w))"

definition NewWithConn :: "nat option \<Rightarrow> Opt list \<Rightarrow> error + Client" where
  "NewWithConn cn opts =
     (case apply_opts opts zero_clientOpts of
        Inl err \<Rightarrow> Inl err
      | Inr copts \<Rightarrow>
          let c = \<lparr>svcs = no_services, conn = cn, defaultns = o_defaultns copts,
                   platform = MatchDefault, connector = None, runtime_value = []\<rparr>;
              c = (if o_defaultRuntime copts \<noteq> []
                   then c\<lparr>runtime_value := o_defaultRuntime copts\<rparr> else c);
              c = (case o_defaultPlatform copts of
                     Some p \<Rightarrow> c\<lparr>platform := p\<rparr>
                   | None \<Rightarrow> c\<lparr>platform := MatchDefault\<rparr>);
              c = (case o_services copts of Some s \<Rightarrow> c\<lparr>svcs := s\<rparr> | None \<Rightarrow> c)
          in Inr c)"

text \<open>
  Reconnect: without a connector it fails at once; otherwise it closes the installed
  connection (a nil pointer there panics), dials, and installs the new connection only
  when the dial succeeded.
\<close>

definition Reconnect :: "env \<Rightarrow> Client \<Rightarrow> world \<Rightarrow> error option \<times> Client \<times> world" where
  "Reconnect ev c w =
     (case connector c of
        None \<Rightarrow> (Some (Errorf ''unable to reconnect to containerd, no connector available: %w'' []
                          ErrUnavailable), c, w)
      | Some cn \<Rightarrow>
          (case conn c of
             None \<Rightarrow> (Some (Panic ''nil pointer dereference''), c, w)
           | Some k \<Rightarrow>
               (let w1 = emit (ConnClose k) w
                in case run_connector ev cn w1 of
                     (Inl err, w2) \<Rightarrow> (Some err, c, w2)
                   | (Inr k', w2) \<Rightarrow> (None, c\<lparr>conn := Some k'\<rparr>, w2))))"

subsection \<open>The service locator\<close>

definition NamespaceService :: "Client \<Rightarrow> service" where
  "NamespaceService c =
     (case namespaceStore (svcs c) of Some s \<Rightarrow> Local s | None \<Rightarrow> Remote (conn c))"

definition ContentStore :: "Client \<Rightarrow> service" where
  "ContentStore c =
     (case contentStore (svcs c) of Some s \<Rightarrow> Local s | None \<Rightarrow> Remote (conn c))"

definition LeasesService :: "Client \<Rightarrow> service" where
  "LeasesService c =
     (case leasesService (svcs c) of Some s \<Rightarrow> Local s | None \<Rightarrow> Remote (conn c))"

subsection \<open>Labels, the default runtime, the snapshotter name\<close>

text \<open>
  GetLabel: the namespace of the context, else the client's default namespace, else the
  error; then the labels of that namespace. A label that is not in the map reads as the
  empty string.
\<close>

definition GetLabel :: "env \<Rightarrow> Context \<Rightarrow> Client \<Rightarrow> string \<Rightarrow> world \<Rightarrow> (error + string) \<times> world" where
  "GetLabel ev ctx c label w =
     (case (case NamespaceRequired ev ctx of
              Inl err \<Rightarrow> (if defaultns c = [] then Inl err else Inr (defaultns c))
            | Inr ns \<Rightarrow> Inr ns) of
        Inl err \<Rightarrow> (Inl err, w)
      | Inr ns \<Rightarrow>
          (let srv = NamespaceService c; w1 = emit (NamespaceLabels srv ns) w
           in case ns_Labels ev srv ctx ns of
                Inl err \<Rightarrow> (Inl err, w1)
              | Inr labels \<Rightarrow> (Inr (case labels label of None \<Rightarrow> [] | Some v \<Rightarrow> v), w1)))"


definition resolveSnapshotterName :: "env \<Rightarrow> Context \<Rightarrow> Client \<Rightarrow> string \<Rightarrow> world \<Rightarrow> (error + string) \<times> world" where
  "resolveSnapshotterName ev ctx c name w =
     (if name = [] then
        (case GetLabel ev ctx c (DefaultSnapshotterNSLabel ev) w of
           (Inl err, w1) \<Rightarrow> (Inl err, w1)
         | (Inr label, w1) \<Rightarrow>
             (if label \<noteq> [] then (Inr label, w1) else (Inr (DefaultSnapshotter ev), w1)))
      else (Inr name, w))"

text \<open>
  The lookup that SnapshotService does once it has a name: the override map when there
  is one (a missing key gives nil), else a proxy on the connection.
\<close>

definition lookup_snapshotter :: "Client \<Rightarrow> string \<Rightarrow> Snapshotter option" where
  "lookup_snapshotter c snapshotterName =
     (case snapshotters (svcs c) of
        Some m \<Rightarrow> map_option LocalSnapshotter (m snapshotterName)
      | None \<Rightarrow> Some (RemoteSnapshotter (conn c) snapshotterName))"

definition SnapshotService :: "env \<Rightarrow> Client \<Rightarrow> string \<Rightarrow> world \<Rightarrow> Snapshotter option \<times> world" where
  "SnapshotService ev c snapshotterName w =
     (case resolveSnapshotterName ev Background c snapshotterName w of
        (Inl err, w1) \<Rightarrow> (lookup_snapshotter c (DefaultSnapshotter ev), w1)
      | (Inr name, w1) \<Rightarrow> (lookup_snapshotter c name, w1))"

subsection \<open>Leases\<close>

text \<open>
  Modelled from the spec: WithLease and the release function it returns (the method is
  declared outside client.go). It acquires a lease from the leases capability, attaches
  it to the context and returns the release function; a failure to acquire is returned
  as the error. Releasing deletes the lease and may be repeated.
\<close>

definition WithLease :: "env \<Rightarrow> Client \<Rightarrow> Context \<Rightarrow> world \<Rightarrow> (error + Context \<times> nat) \<times> world" where
  "WithLease ev c ctx w =
     (case leases_Create ev (LeasesService c) ctx of
        Some err \<Rightarrow> (Inl err, emit LeaseCreateFailed w)
      | None \<Rightarrow>
          (let l = next_lease w
           in (Inr (ctx\<lparr>ctx_lease := Some l\<rparr>, l),
               emit (LeaseCreate l) (w\<lparr>next_lease := Suc l\<rparr>))))"

definition release :: "nat \<Rightarrow> world \<Rightarrow> world" where
  "release l w = emit (LeaseDelete l) w"

subsection \<open>Fetch and Push\<close>

definition defaultRemoteContext :: "env \<Rightarrow> RemoteContext" where
  "defaultRemoteContext ev =
     \<lparr>Resolver = docker_NewResolver ev, PlatformMatcher = None, Unpack = False,
      Snapshotter = [], Labels = Map.empty, BaseHandlers = [], HandlerWrapper = None,
      Platforms = [], MaxConcurrentDownloads = 0, ConcurrentLayerFetchBuffer = 0,
      MaxConcurrentUploadedLayers = 0, AllMetadata = False\<rparr>"

fun apply_remote_opts :: "Client \<Rightarrow> RemoteOpt list \<Rightarrow> RemoteContext \<Rightarrow> error + RemoteContext" where
  "apply_remote_opts c [] rc = Inr rc"
| "apply_remote_opts c (opt # opts) rc =
     (case opt c rc of Inl err \<Rightarrow> Inl err | Inr rc' \<Rightarrow> apply_remote_opts c opts rc')"

text \<open>The platform matcher as Fetch sets it (lines 456 to 467).\<close>

definition fetch_platform_matcher :: "env \<Rightarrow> RemoteContext \<Rightarrow> error + RemoteContext" where
  "fetch_platform_matcher ev fetchCtx =
     (if PlatformMatcher fetchCtx = None then
        (if length (Platforms fetchCtx) = 0
         then Inr (fetchCtx\<lparr>PlatformMatcher := Some MatchAll\<rparr>)
         else (case ParseAll ev (Platforms fetchCtx) of
                 Inl err \<Rightarrow> Inl err
               | Inr ps \<Rightarrow> Inr (fetchCtx\<lparr>PlatformMatcher := Some (MatchAny ps)\<rparr>)))
      else Inr fetchCtx)"

text \<open>The platform matcher as Push sets it (lines 490 to 500).\<close>

definition push_platform_matcher :: "env \<Rightarrow> RemoteContext \<Rightarrow> error + RemoteContext" where
  "push_platform_matcher ev pushCtx =
     (if PlatformMatcher pushCtx = None then
        (if length (Platforms pushCtx) > 0
         then (case ParseAll ev (Platforms pushCtx) of
                 Inl err \<Rightarrow> Inl err
               | Inr ps \<Rightarrow> Inr (pushCtx\<lparr>PlatformMatcher := Some (MatchAny ps)\<rparr>))
         else Inr (pushCtx\<lparr>PlatformMatcher := Some MatchAll\<rparr>))
      else Inr pushCtx)"

text \<open>
  The precedence in the words of the specification: an explicit matcher, else the parsed
  platform list, else match-all.
\<close>

definition spec_platform_matcher :: "env \<Rightarrow> RemoteContext \<Rightarrow> error + MatchComparer" where
  "spec_platform_matcher ev rc =
     (case PlatformMatcher rc of
        Some m \<Rightarrow> Inr m
      | None \<Rightarrow>
          (case Platforms rc of
             [] \<Rightarrow> Inr MatchAll
           | p # ps \<Rightarrow> map_sum id MatchAny (ParseAll ev (p # ps))))"

text \<open>
  Fetch. The deferred release runs on every return after the lease was acquired, with
  the context that carries the lease.
\<close>

definition Fetch :: "env \<Rightarrow> Client \<Rightarrow> Context \<Rightarrow> string \<Rightarrow> RemoteOpt list \<Rightarrow> world \<Rightarrow> (error + Image) \<times> world" where
  "Fetch ev c ctx ref opts w =
     (case apply_remote_opts c opts (defaultRemoteContext ev) of
        Inl err \<Rightarrow> (Inl err, w)
      | Inr fetchCtx \<Rightarrow>
          if Unpack fetchCtx
          then (Inl (Errorf ''unpack on fetch not supported, try pull: %w'' []
                       ErrNotImplemented), w)
          else
            (case fetch_platform_matcher ev fetchCtx of
               Inl err \<Rightarrow> (Inl err, w)
             | Inr fetchCtx \<Rightarrow>
                 (case WithLease ev c ctx w of
                    (Inl err, w1) \<Rightarrow> (Inl err, w1)
                  | (Inr (ctx, l), w1) \<Rightarrow>
                      (let w2 = emit (FetchContent ctx ref) w1
                       in case fetch_impl ev ctx fetchCtx ref 0 of
                            Inl err \<Rightarrow> (Inl err, release l w2)
                          | Inr img \<Rightarrow>
                              (let w3 = emit (CreateImage ctx img) w2
                               in (createNewImage_impl ev ctx img, release l w3))))))"

text \<open>\<^verbatim>\<open>strings.Contains\<close>: some suffix of the string starts with the substring.\<close>

fun strings_Contains :: "string \<Rightarrow> string \<Rightarrow> bool" where
  "strings_Contains [] substr = (substr = [])"
| "strings_Contains (x # xs) substr =
     (take (length substr) (x # xs) = substr \<or> strings_Contains xs substr)"

text \<open>The reference that Push hands to the resolver (lines 502 to 505).\<close>

definition push_ref :: "string \<Rightarrow> Descriptor \<Rightarrow> string" where
  "push_ref ref desc =
     (if \<not> strings_Contains ref ''@'' then ref @ ''@'' @ Digest desc else ref)"

text \<open>The handler wrapper that Push composes (lines 512 to 524).\<close>

definition push_wrapper :: "RemoteContext \<Rightarrow> (Handler \<Rightarrow> Handler) option" where
  "push_wrapper pushCtx =
     (if length (BaseHandlers pushCtx) > 0 then
        Some (\<lambda>h. let h = Handlers (BaseHandlers pushCtx @ [h])
                  in case HandlerWrapper pushCtx of Some hw \<Rightarrow> hw h | None \<Rightarrow> h)
      else if HandlerWrapper pushCtx \<noteq> None then HandlerWrapper pushCtx
      else None)"

definition Push :: "env \<Rightarrow> Client \<Rightarrow> Context \<Rightarrow> string \<Rightarrow> Descriptor \<Rightarrow> RemoteOpt list \<Rightarrow> world \<Rightarrow> error option \<times> world" where
  "Push ev c ctx ref desc opts w =
     (case apply_remote_opts c opts (defaultRemoteContext ev) of
        Inl err \<Rightarrow> (Some err, w)
      | Inr pushCtx \<Rightarrow>
          (case push_platform_matcher ev pushCtx of
             Inl err \<Rightarrow> (Some err, w)
           | Inr pushCtx \<Rightarrow>
               (let ref = push_ref ref desc;
                    w1 = emit (ResolvePusher ref) w
                in case Pusher (Resolver pushCtx) ctx ref of
                     Inl err \<Rightarrow> (Some err, w1)
                   | Inr pusher \<Rightarrow>
                       (let wrapper = push_wrapper pushCtx;
                            limiter = (if MaxConcurrentUploadedLayers pushCtx > 0
                                       then Some (MaxConcurrentUploadedLayers pushCtx)
                                       else None);
                            w2 = emit (PushContent ctx pusher desc (ContentStore c) limiter
                                         (PlatformMatcher pushCtx)) w1
                        in (PushContent_impl ev ctx pusher desc (ContentStore c) limiter
                              (PlatformMatcher pushCtx) wrapper, w2)))))"

subsection \<open>Writing the checkpoint index\<close>

text \<open>The verb \<^verbatim>\<open>%d\<close> on a slice index: decimal digits, no leading zero.\<close>

definition digit_char :: "nat \<Rightarrow> char" where
  "digit_char d = ''0123456789'' ! d"

fun Itoa :: "nat \<Rightarrow> string" where
  "Itoa n = (if n < 10 then [digit_char n] else Itoa (n div 10) @ [digit_char (n mod 10)])"

definition gc_ref_key :: "nat \<Rightarrow> string" where
  "gc_ref_key i = ''containerd.io/gc.ref.content.'' @ Itoa i"

text \<open>The loop over the manifests (lines 584 to 587), from index \<open>i\<close> on.\<close>

fun index_labels_from :: "nat \<Rightarrow> Descriptor list \<Rightarrow> (string \<Rightarrow> string option) \<Rightarrow> (string \<Rightarrow> string option)" where
  "index_labels_from i [] labels = labels"
| "index_labels_from i (m # ms) labels =
     index_labels_from (Suc i) ms (labels(gc_ref_key i \<mapsto> Digest m))"

definition index_labels :: "Index \<Rightarrow> (string \<Rightarrow> string option)" where
  "index_labels index = index_labels_from 0 (Manifests index) Map.empty"

definition MediaTypeImageIndex :: string where
  "MediaTypeImageIndex = ''application/vnd.oci.image.index.v1+json''"

definition writeIndex :: "env \<Rightarrow> Index \<Rightarrow> Client \<Rightarrow> string \<Rightarrow> world \<Rightarrow> (error + Descriptor) \<times> world" where
  "writeIndex ev index client ref w =
     (let labels = index_labels index
      in case json_Marshal ev index of
           Inl err \<Rightarrow> (Inl err, w)
         | Inr data \<Rightarrow>
             (writeContent_impl ev (ContentStore client) MediaTypeImageIndex ref data labels,
              emit (WriteContent (ContentStore client) MediaTypeImageIndex ref data labels) w))"

declare Itoa.simps [simp del]

subsection \<open>Reading a call's events\<close>

text \<open>
  The events that a call added to the trace, and among them the lease operations and
  the references for which a pusher was resolved.
\<close>

definition events_since :: "world \<Rightarrow> world \<Rightarrow> event list" where
  "events_since w w' = drop (length (trace w)) (trace w')"

fun is_lease_op :: "event \<Rightarrow> bool" where
  "is_lease_op (LeaseCreate l) = True"
| "is_lease_op (LeaseDelete l) = True"
| "is_lease_op e = False"

fun pusher_refs :: "event list \<Rightarrow> string list" where
  "pusher_refs [] = []"
| "pusher_refs (ResolvePusher r # es) = r # pusher_refs es"
| "pusher_refs (e # es) = pusher_refs es"

text \<open>An event is a call of the leases service: a lease operation or a refused request.\<close>

fun is_lease_call :: "event \<Rightarrow> bool" where
  "is_lease_call LeaseCreateFailed = True"
| "is_lease_call e = is_lease_op e"

text \<open>
  A call holds exactly one lease for its whole duration: its first event creates a
  lease, its last event deletes that lease, and there is no lease operation between.
\<close>

fun one_lease_held :: "event list \<Rightarrow> bool" where
  "one_lease_held (LeaseCreate l # es) =
     (es \<noteq> [] \<and> last es = LeaseDelete l \<and> filter is_lease_op (butlast es) = [])"
| "one_lease_held es = False"

subsection \<open>A sample environment\<close>

text \<open>
  An environment in which every outside call succeeds, with the defaults of a Linux
  build, an empty world, and a client on a connection supplied by the caller. The
  examples below vary them field by field.
\<close>

definition env0 :: env where
  "env0 =
     \<lparr>grpc_NewClient = (\<lambda>address gopts. None),
      DialAddress = (\<lambda>address. ''unix://'' @ address),
      DefaultMaxRecvMsgSize = 16777216,
      DefaultMaxSendMsgSize = 16777216,
      DefaultRuntime = ''io.containerd.runc.v2'',
      DefaultRuntimeNSLabel = ''containerd.io/defaults/runtime'',
      DefaultSnapshotter = ''overlayfs'',
      DefaultSnapshotterNSLabel = ''containerd.io/defaults/snapshotter'',
      NamespaceRequired = (\<lambda>ctx. case ctx_namespace ctx of
                              None \<Rightarrow> Inl (Foreign ''namespace is required'')
                            | Some ns \<Rightarrow> Inr ns),
      ns_Labels = (\<lambda>srv ctx ns. Inr Map.empty),
      docker_NewResolver = \<lparr>Pusher = (\<lambda>ctx ref. Inr 0)\<rparr>,
      ParseAll = (\<lambda>ss. Inr (map (\<lambda>s. \<lparr>Architecture = s, OS = ''linux'', Variant = []\<rparr>) ss)),
      leases_Create = (\<lambda>srv ctx. None),
      fetch_impl = (\<lambda>ctx rc ref limit.
                      Inr \<lparr>Name = ref, Target = \<lparr>MediaType = [], Digest = ''sha256:abc'', Size = 0\<rparr>\<rparr>),
      createNewImage_impl = (\<lambda>ctx img. Inr img),
      PushContent_impl = (\<lambda>ctx pusher desc store limiter m wrapper. None),
      json_Marshal = (\<lambda>index. Inr ''{}''),
      writeContent_impl = (\<lambda>store mt ref data labels.
                             Inr \<lparr>MediaType = mt, Digest = ''sha256:abc'', Size = 2\<rparr>)\<rparr>"

definition world0 :: world where
  "world0 = \<lparr>trace = [], next_conn = 0, next_lease = 0\<rparr>"

definition client0 :: Client where
  "client0 = \<lparr>svcs = no_services, conn = Some 0, defaultns = [], platform = MatchDefault,
     connector = None, runtime_value = []\<rparr>"

text \<open>
  A client as New builds it for a socket address in that environment, the world after
  the dial, and an environment in which dialling is refused.
\<close>

definition sock :: string where
  "sock = ''/run/containerd/containerd.sock''"

definition gopts1 :: "DialOption list" where
  "gopts1 = [WithTransportCredentials_insecure, WithConnectParams 10000000000 10000000000,
     WithContextDialer,
     WithDefaultCallOptions [MaxCallRecvMsgSize 16777216, MaxCallSendMsgSize 16777216]]"

definition client1 :: Client where
  "client1 = \<lparr>svcs = no_services, conn = Some 0, defaultns = [], platform = MatchDefault,
     connector = Some (sock, gopts1), runtime_value = []\<rparr>"

definition world1 :: world where
  "world1 = \<lparr>trace = [Dial (''unix://'' @ sock) gopts1], next_conn = 1, next_lease = 0\<rparr>"

definition env_dial_fails :: env where
  "env_dial_fails =
     env0\<lparr>grpc_NewClient := (\<lambda>address gopts. Some (Foreign ''connection refused''))\<rparr>"

text \<open>
  A manifest descriptor, an environment in which the transfer fails, and, for the
  default runtime, a client with a default namespace, an environment in which the label
  lookup fails, one in which the namespace carries a runtime label, and the world after
  one lookup.
\<close>

definition desc0 :: Descriptor where
  "desc0 = \<lparr>MediaType = ''application/vnd.oci.image.manifest.v1+json'', Digest = ''sha256:abc'', Size = 7\<rparr>"

definition env_fetch_fails :: env where
  "env_fetch_fails = env0\<lparr>fetch_impl := (\<lambda>ctx rc ref limit. Inl (Foreign ''connection reset''))\<rparr>"





text \<open>A second manifest and a checkpoint index of the two.\<close>

definition desc1 :: Descriptor where
  "desc1 = \<lparr>MediaType = ''application/vnd.oci.image.manifest.v1+json'', Digest = ''sha256:def'', Size = 9\<rparr>"

definition index0 :: Index where
  "index0 = \<lparr>SchemaVersion = 2, Manifests = [desc0, desc1]\<rparr>"

text \<open>
  An option that installs a services struct with no capability set, and the client
  that New then builds without a connection. Clients whose snapshotter overrides lack
  and hold the default snapshotter. Environments in which the lease is refused and in
  which no platform string parses, and options that fail, set the unpack flag and set a
  platform list.
\<close>

definition with_empty_services :: Opt where
  "with_empty_services copts = Inr (copts\<lparr>o_services := Some no_services\<rparr>)"

definition client_local :: Client where
  "client_local = \<lparr>svcs = no_services, conn = None, defaultns = [], platform = MatchDefault,
     connector = None, runtime_value = []\<rparr>"

definition client_sn :: Client where
  "client_sn = client0\<lparr>svcs := no_services\<lparr>snapshotters := Some [''native'' \<mapsto> 8]\<rparr>\<rparr>"

definition client_sn_default :: Client where
  "client_sn_default =
     client0\<lparr>svcs := no_services\<lparr>snapshotters := Some [''native'' \<mapsto> 8, ''overlayfs'' \<mapsto> 7]\<rparr>\<rparr>"

definition env_lease_refused :: env where
  "env_lease_refused = env0\<lparr>leases_Create := (\<lambda>srv ctx. Some (Foreign ''lease refused''))\<rparr>"

definition env_parse_fails :: env where
  "env_parse_fails = env0\<lparr>ParseAll := (\<lambda>ss. Inl ErrInvalidArgument)\<rparr>"

definition opt_fails :: RemoteOpt where
  "opt_fails c rc = Inl (Foreign ''bad option'')"

definition opt_unpack :: RemoteOpt where
  "opt_unpack c rc = Inr (rc\<lparr>Unpack := True\<rparr>)"

definition opt_platforms :: RemoteOpt where
  "opt_platforms c rc = Inr (rc\<lparr>Platforms := [''bogus'']\<rparr>)"

section \<open>Properties\<close>

subsection \<open>Auxiliary facts\<close>

lemma New_sock: "New env0 sock [] world0 = (Inr client1, world1)"
  by (simp add: New_def zero_clientOpts_def second_def gopts_of_def run_connector_def emit_def
      env0_def world0_def client1_def world1_def gopts1_def Let_def sock_def)

lemma strings_Contains_char: "strings_Contains s [ch] = (ch \<in> set s)"
  by (induction s) auto

lemma push_ref_at: "push_ref ref desc = (if CHR ''@'' \<in> set ref then ref else ref @ ''@'' @ Digest desc)"
  by (simp add: push_ref_def strings_Contains_char)

lemma Push_events:
  "events_since w (snd (Push ev c ctx ref desc opts w)) =
     (case apply_remote_opts c opts (defaultRemoteContext ev) of
        Inl err \<Rightarrow> []
      | Inr rc0 \<Rightarrow>
          (case push_platform_matcher ev rc0 of
             Inl err \<Rightarrow> []
           | Inr rc \<Rightarrow>
               (case Pusher (Resolver rc) ctx (push_ref ref desc) of
                  Inl err \<Rightarrow> [ResolvePusher (push_ref ref desc)]
                | Inr pusher \<Rightarrow>
                    [ResolvePusher (push_ref ref desc),
                     PushContent ctx pusher desc (ContentStore c)
                       (if MaxConcurrentUploadedLayers rc > 0
                        then Some (MaxConcurrentUploadedLayers rc) else None)
                       (PlatformMatcher rc)])))"
  by (simp add: Push_def events_since_def emit_def Let_def split: sum.splits)

lemma Fetch_events:
  "events_since w (snd (Fetch ev c ctx ref opts w)) =
     (case apply_remote_opts c opts (defaultRemoteContext ev) of
        Inl err \<Rightarrow> []
      | Inr rc0 \<Rightarrow>
          if Unpack rc0 then []
          else (case fetch_platform_matcher ev rc0 of
                  Inl err \<Rightarrow> []
                | Inr rc \<Rightarrow>
                    (case leases_Create ev (LeasesService c) ctx of
                       Some err \<Rightarrow> [LeaseCreateFailed]
                     | None \<Rightarrow>
                         LeaseCreate (next_lease w) #
                         FetchContent (ctx\<lparr>ctx_lease := Some (next_lease w)\<rparr>) ref #
                         (case fetch_impl ev (ctx\<lparr>ctx_lease := Some (next_lease w)\<rparr>) rc ref 0 of
                            Inl err \<Rightarrow> []
                          | Inr img \<Rightarrow> [CreateImage (ctx\<lparr>ctx_lease := Some (next_lease w)\<rparr>) img]) @
                         [LeaseDelete (next_lease w)])))"
  by (simp add: Fetch_def WithLease_def release_def events_since_def emit_def Let_def
      split: sum.splits option.splits)

lemma Fetch_result_early:
  "apply_remote_opts c opts (defaultRemoteContext ev) = Inl e \<Longrightarrow>
     Fetch ev c ctx ref opts w = (Inl e, w)"
  "apply_remote_opts c opts (defaultRemoteContext ev) = Inr rc0 \<Longrightarrow> Unpack rc0 \<Longrightarrow>
     Fetch ev c ctx ref opts w =
       (Inl (Errorf ''unpack on fetch not supported, try pull: %w'' [] ErrNotImplemented), w)"
  "apply_remote_opts c opts (defaultRemoteContext ev) = Inr rc0 \<Longrightarrow> \<not> Unpack rc0 \<Longrightarrow>
     fetch_platform_matcher ev rc0 = Inl e \<Longrightarrow> Fetch ev c ctx ref opts w = (Inl e, w)"
  "apply_remote_opts c opts (defaultRemoteContext ev) = Inr rc0 \<Longrightarrow> \<not> Unpack rc0 \<Longrightarrow>
     fetch_platform_matcher ev rc0 = Inr rc \<Longrightarrow>
     leases_Create ev (LeasesService c) ctx = Some e \<Longrightarrow>
     Fetch ev c ctx ref opts w = (Inl e, emit LeaseCreateFailed w)"
  by (simp_all add: Fetch_def WithLease_def)





text \<open>The decimal rendering is injective, so the label keys are distinct.\<close>

lemma digit_char_inj: "a < 10 \<Longrightarrow> b < 10 \<Longrightarrow> digit_char a = digit_char b \<Longrightarrow> a = b"
proof -
  assume a: "a < 10" and b: "b < 10" and e: "digit_char a = digit_char b"
  have d: "distinct ''0123456789''" by simp
  have l: "length ''0123456789'' = 10" by simp
  from e have "''0123456789'' ! a = ''0123456789'' ! b" by (simp only: digit_char_def)
  with d l a b show "a = b" by (simp only: nth_eq_iff_index_eq)
qed

lemma Itoa_nonempty: "Itoa n \<noteq> []"
  by (subst Itoa.simps) simp

lemma Itoa_last: "last (Itoa n) = digit_char (n mod 10)"
  by (subst Itoa.simps) simp

lemma Itoa_butlast: "butlast (Itoa n) = (if n < 10 then [] else Itoa (n div 10))"
  by (subst Itoa.simps) simp

lemma Itoa_inj: "Itoa m = Itoa n \<Longrightarrow> m = n"
proof (induction m arbitrary: n rule: less_induct)
  case (less m)
  have l: "digit_char (m mod 10) = digit_char (n mod 10)"
    using less.prems Itoa_last by metis
  then have md: "m mod 10 = n mod 10"
    by (intro digit_char_inj) simp_all
  have bl: "butlast (Itoa m) = butlast (Itoa n)" using less.prems by simp
  show ?case
  proof (cases "m < 10")
    case True
    then have "n < 10" using bl Itoa_nonempty [of "n div 10"] by (auto simp: Itoa_butlast split: if_splits)
    with True md show ?thesis by simp
  next
    case False
    then have n: "\<not> n < 10" using bl Itoa_nonempty [of "m div 10"] by (auto simp: Itoa_butlast split: if_splits)
    with False bl have "Itoa (m div 10) = Itoa (n div 10)" by (simp add: Itoa_butlast)
    moreover have "m div 10 < m" using False by simp
    ultimately have "m div 10 = n div 10" using less.IH by blast
    with md show ?thesis by (metis div_mult_mod_eq)
  qed
qed

lemma gc_ref_key_inj: "gc_ref_key i = gc_ref_key j \<Longrightarrow> i = j"
  by (simp add: gc_ref_key_def Itoa_inj)

lemma index_labels_from_other:
  "\<forall>j < length ms. k \<noteq> gc_ref_key (i + j) \<Longrightarrow> index_labels_from i ms labels k = labels k"
proof (induction ms arbitrary: i labels)
  case Nil
  then show ?case by simp
next
  case (Cons m ms)
  have "\<forall>j < length ms. k \<noteq> gc_ref_key (Suc i + j)"
    using Cons.prems by (metis Suc_less_eq add_Suc_shift length_Cons)
  then have "index_labels_from (Suc i) ms (labels(gc_ref_key i \<mapsto> Digest m)) k =
     (labels(gc_ref_key i \<mapsto> Digest m)) k" by (rule Cons.IH)
  moreover have "k \<noteq> gc_ref_key i" using Cons.prems by (metis add.right_neutral length_Cons zero_less_Suc)
  ultimately show ?case by simp
qed

lemma index_labels_from_at:
  "j < length ms \<Longrightarrow> index_labels_from i ms labels (gc_ref_key (i + j)) = Some (Digest (ms ! j))"
proof (induction ms arbitrary: i labels j)
  case Nil
  then show ?case by simp
next
  case (Cons m ms)
  show ?case
  proof (cases j)
    case 0
    have "\<forall>j' < length ms. gc_ref_key i \<noteq> gc_ref_key (Suc i + j')"
      using gc_ref_key_inj by fastforce
    then have "index_labels_from (Suc i) ms (labels(gc_ref_key i \<mapsto> Digest m)) (gc_ref_key i) =
       (labels(gc_ref_key i \<mapsto> Digest m)) (gc_ref_key i)" by (rule index_labels_from_other)
    with 0 show ?thesis by simp
  next
    case (Suc j')
    then have "j' < length ms" using Cons.prems by simp
    then have "index_labels_from (Suc i) ms (labels(gc_ref_key i \<mapsto> Digest m)) (gc_ref_key (Suc i + j')) =
       Some (Digest (ms ! j'))" by (rule Cons.IH)
    with Suc show ?thesis by simp
  qed
qed

lemma index_labels_from_dom:
  "dom (index_labels_from i ms labels) = dom labels \<union> gc_ref_key ` {i ..< i + length ms}"
proof (induction ms arbitrary: i labels)
  case Nil
  then show ?case by simp
next
  case (Cons m ms)
  have a: "{i ..< i + length (m # ms)} = insert i {Suc i ..< Suc i + length ms}" by auto
  have "dom (index_labels_from i (m # ms) labels) =
      dom (labels(gc_ref_key i \<mapsto> Digest m)) \<union> gc_ref_key ` {Suc i ..< Suc i + length ms}"
    unfolding index_labels_from.simps by (rule Cons.IH)
  also have "\<dots> = insert (gc_ref_key i) (dom labels) \<union> gc_ref_key ` {Suc i ..< Suc i + length ms}"
    by (simp only: dom_fun_upd option.simps if_False)
  also have "\<dots> = dom labels \<union> gc_ref_key ` {i ..< i + length (m # ms)}"
    unfolding a by blast
  finally show ?case .
qed

lemma index_labels_at: "i < length (Manifests index) \<Longrightarrow>
   index_labels index (gc_ref_key i) = Some (Digest (Manifests index ! i))"
  using index_labels_from_at [of i "Manifests index" 0 Map.empty] by (simp add: index_labels_def)

lemma index_labels_dom: "dom (index_labels index) = gc_ref_key ` {..< length (Manifests index)}"
  by (simp add: index_labels_def index_labels_from_dom lessThan_atLeast0)

lemma index_labels_card: "card (dom (index_labels index)) = length (Manifests index)"
proof -
  have "inj_on gc_ref_key {..< length (Manifests index)}"
    by (rule inj_onI) (rule gc_ref_key_inj)
  then show ?thesis by (simp add: index_labels_dom card_image)
qed



subsection \<open>Construction and reconnection\<close>

text \<open>
  C6. The claim fails when the options install a services struct that overrides no
  capability: with an empty address New then returns a client that has no connection
  and no override.
\<close>

theorem New_empty_address_empty_services_counterexample:
  "apply_opts [with_empty_services] zero_clientOpts =
     Inr (zero_clientOpts\<lparr>o_services := Some no_services\<rparr>) \<and>
   New env0 [] [with_empty_services] world0 = (Inr client_local, world0) \<and>
   svcs client_local = no_services \<and> conn client_local = None"
  by (simp add: New_def with_empty_services_def zero_clientOpts_def client_local_def Let_def)

text \<open>
  C6, as amended. With an empty address, New fails with the error that wraps
  Unavailable, returns no client and leaves the world untouched exactly when its options
  apply and leave the services struct unset; when an option fails, its error is
  returned, again with no client; when the options install a services struct, even one
  that overrides nothing, New returns a client with those services and no connection.
\<close>

theorem New_empty_address_services_unset:
  "(apply_opts opts zero_clientOpts = Inr copts \<and> o_services copts = None \<longrightarrow>
      New ev [] opts w =
        (Inl (Errorf ''no grpc connection or services is available: %w'' [] ErrUnavailable), w) \<and>
      errors_Is (Errorf ''no grpc connection or services is available: %w'' [] ErrUnavailable)
        ErrUnavailable) \<and>
   (apply_opts opts zero_clientOpts = Inl e \<longrightarrow> New ev [] opts w = (Inl e, w)) \<and>
   (apply_opts opts zero_clientOpts = Inr copts \<and> o_services copts = Some s \<longrightarrow>
      (\<exists>c. New ev [] opts w = (Inr c, w) \<and> conn c = None \<and> connector c = None \<and> svcs c = s))"
  by (simp add: New_def Let_def split: option.splits)

theorem New_empty_address_services_unset_witness:
  "apply_opts [\<lambda>co. Inr (co\<lparr>o_defaultns := ''default''\<rparr>)] zero_clientOpts =
      Inr (zero_clientOpts\<lparr>o_defaultns := ''default''\<rparr>) \<and>
   o_services (zero_clientOpts\<lparr>o_defaultns := ''default''\<rparr>) = None \<and>
   New env0 [] [\<lambda>co. Inr (co\<lparr>o_defaultns := ''default''\<rparr>)] world0 =
      (Inl (Errorf ''no grpc connection or services is available: %w'' [] ErrUnavailable), world0) \<and>
   apply_opts [\<lambda>co. Inl ErrInvalidArgument] zero_clientOpts = Inl ErrInvalidArgument \<and>
   New env0 [] [\<lambda>co. Inl ErrInvalidArgument] world0 = (Inl ErrInvalidArgument, world0) \<and>
   apply_opts [with_empty_services] zero_clientOpts =
      Inr (zero_clientOpts\<lparr>o_services := Some no_services\<rparr>) \<and>
   o_services (zero_clientOpts\<lparr>o_services := Some no_services\<rparr>) = Some no_services \<and>
   (\<exists>c. New env0 [] [with_empty_services] world0 = (Inr c, world0) \<and> conn c = None \<and>
        connector c = None \<and> svcs c = no_services)"
  using New_empty_address_services_unset
      [where opts = "[\<lambda>co. Inr (co\<lparr>o_defaultns := ''default''\<rparr>)]"
         and copts = "zero_clientOpts\<lparr>o_defaultns := ''default''\<rparr>" and ev = env0 and w = world0]
    New_empty_address_services_unset
      [where opts = "[\<lambda>co. Inl ErrInvalidArgument]" and e = ErrInvalidArgument
         and ev = env0 and w = world0]
    New_empty_address_services_unset
      [where opts = "[with_empty_services]"
         and copts = "zero_clientOpts\<lparr>o_services := Some no_services\<rparr>"
         and s = no_services and ev = env0 and w = world0]
  by (simp add: zero_clientOpts_def with_empty_services_def)

text \<open>
  C7. Without a connector, as in a client built by NewWithConn on a connection of the
  caller, Reconnect returns an error that wraps Unavailable and changes neither the
  client (so the installed connection stays) nor the world: nothing is closed and
  nothing is dialled.
\<close>

theorem Reconnect_without_connector:
  "connector c = None \<Longrightarrow>
     \<exists>err. Reconnect ev c w = (Some err, c, w) \<and> errors_Is err ErrUnavailable"
  by (simp add: Reconnect_def)

theorem Reconnect_without_connector_witness:
  "NewWithConn (Some 0) [] = Inr client0 \<and> connector client0 = None \<and>
   (\<exists>err. Reconnect env0 client0 world0 = (Some err, client0, world0) \<and>
      errors_Is err ErrUnavailable)"
  using Reconnect_without_connector [of client0 env0 world0]
  by (simp add: NewWithConn_def client0_def zero_clientOpts_def Let_def)

text \<open>
  C9. With a connector and an installed connection \<open>k\<close>, a Reconnect whose dial fails
  returns the dial error, has closed \<open>k\<close> before it dialled, and leaves \<open>k\<close>
  installed: the client then holds a closed connection.
\<close>

theorem Reconnect_dial_failure:
  "connector c = Some cn \<Longrightarrow> conn c = Some k \<Longrightarrow>
   grpc_NewClient ev (DialAddress ev (fst cn)) (snd cn) = Some err \<Longrightarrow>
   Reconnect ev c w =
     (Some (Errorf ''failed to dial %q: %w'' [fst cn] err), c,
      w\<lparr>trace := trace w @ [ConnClose k, Dial (DialAddress ev (fst cn)) (snd cn)]\<rparr>)
   \<and> conn (fst (snd (Reconnect ev c w))) = Some k
   \<and> ConnClose k \<in> set (trace (snd (snd (Reconnect ev c w))))"
  by (simp add: Reconnect_def run_connector_def emit_def Let_def)

theorem Reconnect_dial_failure_witness:
  "New env0 sock [] world0 = (Inr client1, world1) \<and>
   connector client1 = Some (sock, gopts1) \<and> conn client1 = Some 0 \<and>
   grpc_NewClient env_dial_fails (DialAddress env_dial_fails sock) gopts1 =
     Some (Foreign ''connection refused'') \<and>
   Reconnect env_dial_fails client1 world1 =
     (Some (Errorf ''failed to dial %q: %w'' [sock] (Foreign ''connection refused'')), client1,
      world1\<lparr>trace := [Dial (''unix://'' @ sock) gopts1, ConnClose 0,
                        Dial (''unix://'' @ sock) gopts1]\<rparr>) \<and>
   conn (fst (snd (Reconnect env_dial_fails client1 world1))) = Some 0 \<and>
   ConnClose 0 \<in> set (trace (snd (snd (Reconnect env_dial_fails client1 world1))))"
  using Reconnect_dial_failure [of client1 "(sock, gopts1)" 0 env_dial_fails
      "Foreign ''connection refused''" world1] New_sock
  by (simp add: client1_def env_dial_fails_def env0_def world1_def)

subsection \<open>The default runtime\<close>




subsection \<open>Snapshotter lookup\<close>

text \<open>
  C10. Resolving the snapshotter name fails only for an empty name whose label lookup
  fails. SnapshotService then reports no error: without snapshotter overrides it returns
  the proxy for the compiled-in default snapshotter name on the client's connection, and
  with overrides it returns the entry of the override map under that default name, nil
  when there is none.
\<close>

theorem SnapshotService_error_uses_default:
  "resolveSnapshotterName ev Background c name w = (Inl err, w1) \<Longrightarrow>
   name = [] \<and> fst (GetLabel ev Background c (DefaultSnapshotterNSLabel ev) w) = Inl err \<and>
   (snapshotters (svcs c) = None \<longrightarrow>
      SnapshotService ev c name w = (Some (RemoteSnapshotter (conn c) (DefaultSnapshotter ev)), w1)) \<and>
   (\<forall>m. snapshotters (svcs c) = Some m \<longrightarrow>
      SnapshotService ev c name w =
        (case m (DefaultSnapshotter ev) of
           None \<Rightarrow> None
         | Some s \<Rightarrow> Some (LocalSnapshotter s), w1))"
  by (auto simp add: SnapshotService_def lookup_snapshotter_def resolveSnapshotterName_def
      split: if_splits prod.splits sum.splits option.splits)

theorem SnapshotService_error_uses_default_witness:
  "resolveSnapshotterName env0 Background client0 [] world0 =
      (Inl (Foreign ''namespace is required''), world0) \<and>
   SnapshotService env0 client0 [] world0 =
      (Some (RemoteSnapshotter (Some 0) ''overlayfs''), world0) \<and>
   resolveSnapshotterName env0 Background client_sn [] world0 =
      (Inl (Foreign ''namespace is required''), world0) \<and>
   SnapshotService env0 client_sn [] world0 = (None, world0) \<and>
   resolveSnapshotterName env0 Background client_sn_default [] world0 =
      (Inl (Foreign ''namespace is required''), world0) \<and>
   SnapshotService env0 client_sn_default [] world0 = (Some (LocalSnapshotter 7), world0)"
proof -
  have r0: "resolveSnapshotterName env0 Background client0 [] world0 =
      (Inl (Foreign ''namespace is required''), world0)"
    by (simp add: resolveSnapshotterName_def GetLabel_def env0_def Background_def client0_def)
  have r1: "resolveSnapshotterName env0 Background client_sn [] world0 =
      (Inl (Foreign ''namespace is required''), world0)"
    by (simp add: resolveSnapshotterName_def GetLabel_def env0_def Background_def client0_def
        client_sn_def)
  have r2: "resolveSnapshotterName env0 Background client_sn_default [] world0 =
      (Inl (Foreign ''namespace is required''), world0)"
    by (simp add: resolveSnapshotterName_def GetLabel_def env0_def Background_def client0_def
        client_sn_default_def)
  from SnapshotService_error_uses_default [OF r0]
  have "SnapshotService env0 client0 [] world0 =
      (Some (RemoteSnapshotter (Some 0) ''overlayfs''), world0)"
    by (simp add: client0_def no_services_def env0_def)
  moreover from SnapshotService_error_uses_default [OF r1]
  have "SnapshotService env0 client_sn [] world0 = (None, world0)"
    by (simp add: client_sn_def client0_def no_services_def env0_def)
  moreover from SnapshotService_error_uses_default [OF r2]
  have "SnapshotService env0 client_sn_default [] world0 = (Some (LocalSnapshotter 7), world0)"
    by (simp add: client_sn_default_def client0_def no_services_def env0_def)
  ultimately show ?thesis using r0 r1 r2 by simp
qed


subsection \<open>Fetch and Push\<close>

text \<open>
  C3. A Fetch whose options compose to a RemoteContext with the unpack flag set fails
  with an error that wraps NotImplemented, and returns the world as it found it: no
  lease was requested and no outside call was made.
\<close>

theorem Fetch_unpack_not_implemented:
  "apply_remote_opts c opts (defaultRemoteContext ev) = Inr fetchCtx \<Longrightarrow> Unpack fetchCtx \<Longrightarrow>
   \<exists>err. Fetch ev c ctx ref opts w = (Inl err, w) \<and> errors_Is err ErrNotImplemented"
  by (simp add: Fetch_def)

theorem Fetch_unpack_not_implemented_witness:
  "apply_remote_opts client0 [\<lambda>c rc. Inr (rc\<lparr>Unpack := True\<rparr>)] (defaultRemoteContext env0) =
      Inr ((defaultRemoteContext env0)\<lparr>Unpack := True\<rparr>) \<and>
   Unpack ((defaultRemoteContext env0)\<lparr>Unpack := True\<rparr>) \<and>
   (\<exists>err. Fetch env0 client0 Background ''example.com/repo:tag''
             [\<lambda>c rc. Inr (rc\<lparr>Unpack := True\<rparr>)] world0 = (Inl err, world0) \<and>
          errors_Is err ErrNotImplemented)"
  using Fetch_unpack_not_implemented [of client0 "[\<lambda>c rc. Inr (rc\<lparr>Unpack := True\<rparr>)]" env0
      "(defaultRemoteContext env0)\<lparr>Unpack := True\<rparr>" Background "''example.com/repo:tag''" world0]
  by simp

text \<open>
  C5. Every pusher that Push resolves is resolved for the reference itself when it
  contains an \<open>@\<close>, and for the reference followed by \<open>@\<close> and the digest of the
  descriptor when it does not; a Push whose options apply and whose platforms parse
  resolves exactly one pusher, for that reference, and returns the resolver's error
  for that reference or else what the push of the content returns.
\<close>

theorem Push_pusher_ref:
  "set (pusher_refs (events_since w (snd (Push ev c ctx ref desc opts w))))
      \<subseteq> {if CHR ''@'' \<in> set ref then ref else ref @ ''@'' @ Digest desc} \<and>
   (apply_remote_opts c opts (defaultRemoteContext ev) = Inr rc0 \<and>
    push_platform_matcher ev rc0 = Inr rc \<longrightarrow>
      pusher_refs (events_since w (snd (Push ev c ctx ref desc opts w))) =
        [if CHR ''@'' \<in> set ref then ref else ref @ ''@'' @ Digest desc] \<and>
      fst (Push ev c ctx ref desc opts w) =
        (case Pusher (Resolver rc) ctx
                (if CHR ''@'' \<in> set ref then ref else ref @ ''@'' @ Digest desc) of
           Inl err \<Rightarrow> Some err
         | Inr pusher \<Rightarrow>
             PushContent_impl ev ctx pusher desc (ContentStore c)
               (if MaxConcurrentUploadedLayers rc > 0
                then Some (MaxConcurrentUploadedLayers rc) else None)
               (PlatformMatcher rc) (push_wrapper rc)))"
proof (intro conjI impI)
  show "set (pusher_refs (events_since w (snd (Push ev c ctx ref desc opts w))))
      \<subseteq> {if CHR ''@'' \<in> set ref then ref else ref @ ''@'' @ Digest desc}"
    by (simp add: Push_events push_ref_at split: sum.splits)
next
  assume "apply_remote_opts c opts (defaultRemoteContext ev) = Inr rc0 \<and>
    push_platform_matcher ev rc0 = Inr rc"
  then show "pusher_refs (events_since w (snd (Push ev c ctx ref desc opts w))) =
        [if CHR ''@'' \<in> set ref then ref else ref @ ''@'' @ Digest desc]"
    by (simp add: Push_events push_ref_at split: sum.splits)
next
  assume "apply_remote_opts c opts (defaultRemoteContext ev) = Inr rc0 \<and>
    push_platform_matcher ev rc0 = Inr rc"
  then show "fst (Push ev c ctx ref desc opts w) =
        (case Pusher (Resolver rc) ctx
                (if CHR ''@'' \<in> set ref then ref else ref @ ''@'' @ Digest desc) of
           Inl err \<Rightarrow> Some err
         | Inr pusher \<Rightarrow>
             PushContent_impl ev ctx pusher desc (ContentStore c)
               (if MaxConcurrentUploadedLayers rc > 0
                then Some (MaxConcurrentUploadedLayers rc) else None)
               (PlatformMatcher rc) (push_wrapper rc))"
    by (simp add: Push_def push_ref_at Let_def split: sum.splits)
qed

theorem Push_pusher_ref_witness:
  "apply_remote_opts client0 [] (defaultRemoteContext env0) = Inr (defaultRemoteContext env0) \<and>
   push_platform_matcher env0 (defaultRemoteContext env0) =
     Inr ((defaultRemoteContext env0)\<lparr>PlatformMatcher := Some MatchAll\<rparr>) \<and>
   pusher_refs (events_since world0
      (snd (Push env0 client0 Background ''example.com/repo:tag'' desc0 [] world0))) =
     [''example.com/repo:tag@sha256:abc''] \<and>
   pusher_refs (events_since world0
      (snd (Push env0 client0 Background ''example.com/repo@sha256:def'' desc0 [] world0))) =
     [''example.com/repo@sha256:def''] \<and>
   fst (Push env0 client0 Background ''example.com/repo:tag'' desc0 [] world0) = None"
  using Push_pusher_ref [of world0 env0 client0 Background "''example.com/repo:tag''" desc0 "[]"
      "defaultRemoteContext env0" "(defaultRemoteContext env0)\<lparr>PlatformMatcher := Some MatchAll\<rparr>"]
    Push_pusher_ref [of world0 env0 client0 Background "''example.com/repo@sha256:def''" desc0 "[]"
      "defaultRemoteContext env0" "(defaultRemoteContext env0)\<lparr>PlatformMatcher := Some MatchAll\<rparr>"]
  by (simp add: push_platform_matcher_def defaultRemoteContext_def desc0_def env0_def)

text \<open>
  C2. The claim that the two resolution procedures differ does not hold: no environment
  and no RemoteContext tells them apart.
\<close>

theorem platform_precedence_differs_counterexample:
  "\<not> (\<exists>ev rc. push_platform_matcher ev rc \<noteq> fetch_platform_matcher ev rc)"
  by (simp add: push_platform_matcher_def fetch_platform_matcher_def)

text \<open>
  C2, as amended. Push resolves its platform matcher exactly as Fetch does, and both
  follow the one precedence: an explicit matcher, else the parsed platform list, else
  match-all; a platform string that does not parse is the error of both.
\<close>

theorem push_fetch_platform_matcher_same:
  "push_platform_matcher ev rc = fetch_platform_matcher ev rc \<and>
   fetch_platform_matcher ev rc =
     map_sum id (\<lambda>m. rc\<lparr>PlatformMatcher := Some m\<rparr>) (spec_platform_matcher ev rc)"
  by (cases "PlatformMatcher rc"; cases "Platforms rc"; cases "ParseAll ev (Platforms rc)")
    (simp_all add: push_platform_matcher_def fetch_platform_matcher_def spec_platform_matcher_def)

text \<open>
  C1. The claim fails for Push: a successful Push in the sample environment creates no
  lease.
\<close>

theorem Fetch_Push_one_lease_counterexample:
  "\<not> one_lease_held (events_since world0
        (snd (Push env0 client0 Background ''example.com/repo:tag'' desc0 [] world0)))"
  by (simp add: Push_def push_platform_matcher_def defaultRemoteContext_def env0_def
      events_since_def emit_def world0_def Let_def push_ref_def)

text \<open>
  C1, as amended. A Fetch whose options fail, whose unpack flag is set or whose
  platforms do not parse returns the error and makes no outside call, so it touches no
  lease. A Fetch whose lease request is refused returns that error after the one refused
  request and holds no lease. Every other Fetch holds exactly one lease for the rest of
  the call: it creates the lease, transfers and registers the image under the context
  that carries it, and deletes it as its last step, whether the transfer and the
  registration succeed or fail. Push makes no call of the leases service.
\<close>

theorem Fetch_lease_scope_exact:
  "(apply_remote_opts c opts (defaultRemoteContext ev) = Inl e \<longrightarrow>
      Fetch ev c ctx ref opts w = (Inl e, w)) \<and>
   (apply_remote_opts c opts (defaultRemoteContext ev) = Inr fc \<and> Unpack fc \<longrightarrow>
      snd (Fetch ev c ctx ref opts w) = w \<and> isl (fst (Fetch ev c ctx ref opts w))) \<and>
   (apply_remote_opts c opts (defaultRemoteContext ev) = Inr fc \<and> \<not> Unpack fc \<and>
    fetch_platform_matcher ev fc = Inl e \<longrightarrow>
      Fetch ev c ctx ref opts w = (Inl e, w)) \<and>
   (apply_remote_opts c opts (defaultRemoteContext ev) = Inr fc \<and> \<not> Unpack fc \<and>
    fetch_platform_matcher ev fc = Inr mc \<and>
    leases_Create ev (LeasesService c) ctx = Some e \<longrightarrow>
      fst (Fetch ev c ctx ref opts w) = Inl e \<and>
      events_since w (snd (Fetch ev c ctx ref opts w)) = [LeaseCreateFailed]) \<and>
   (apply_remote_opts c opts (defaultRemoteContext ev) = Inr fc \<and> \<not> Unpack fc \<and>
    fetch_platform_matcher ev fc = Inr mc \<and>
    leases_Create ev (LeasesService c) ctx = None \<longrightarrow>
      one_lease_held (events_since w (snd (Fetch ev c ctx ref opts w))) \<and>
      events_since w (snd (Fetch ev c ctx ref opts w)) =
        LeaseCreate (next_lease w) #
        FetchContent (ctx\<lparr>ctx_lease := Some (next_lease w)\<rparr>) ref #
        (case fetch_impl ev (ctx\<lparr>ctx_lease := Some (next_lease w)\<rparr>) mc ref 0 of
           Inl err \<Rightarrow> []
         | Inr img \<Rightarrow> [CreateImage (ctx\<lparr>ctx_lease := Some (next_lease w)\<rparr>) img]) @
        [LeaseDelete (next_lease w)]) \<and>
   filter is_lease_call (events_since w' (snd (Push ev' c' ctx' ref' desc opts' w'))) = []"
proof (intro conjI impI)
  assume "apply_remote_opts c opts (defaultRemoteContext ev) = Inl e"
  then show "Fetch ev c ctx ref opts w = (Inl e, w)" by (rule Fetch_result_early)
next
  assume a: "apply_remote_opts c opts (defaultRemoteContext ev) = Inr fc \<and> Unpack fc"
  then show "snd (Fetch ev c ctx ref opts w) = w" by (simp add: Fetch_result_early)
  from a show "isl (fst (Fetch ev c ctx ref opts w))" by (simp add: Fetch_result_early)
next
  assume "apply_remote_opts c opts (defaultRemoteContext ev) = Inr fc \<and> \<not> Unpack fc \<and>
    fetch_platform_matcher ev fc = Inl e"
  then show "Fetch ev c ctx ref opts w = (Inl e, w)" by (simp add: Fetch_result_early)
next
  assume a: "apply_remote_opts c opts (defaultRemoteContext ev) = Inr fc \<and> \<not> Unpack fc \<and>
    fetch_platform_matcher ev fc = Inr mc \<and> leases_Create ev (LeasesService c) ctx = Some e"
  then have f: "Fetch ev c ctx ref opts w = (Inl e, emit LeaseCreateFailed w)"
    by (simp add: Fetch_result_early)
  then show "fst (Fetch ev c ctx ref opts w) = Inl e" by simp
  from f show "events_since w (snd (Fetch ev c ctx ref opts w)) = [LeaseCreateFailed]"
    by (simp add: events_since_def emit_def)
next
  assume a: "apply_remote_opts c opts (defaultRemoteContext ev) = Inr fc \<and> \<not> Unpack fc \<and>
    fetch_platform_matcher ev fc = Inr mc \<and> leases_Create ev (LeasesService c) ctx = None"
  then show "one_lease_held (events_since w (snd (Fetch ev c ctx ref opts w)))"
    by (simp add: Fetch_events split: sum.splits)
  from a show "events_since w (snd (Fetch ev c ctx ref opts w)) =
        LeaseCreate (next_lease w) #
        FetchContent (ctx\<lparr>ctx_lease := Some (next_lease w)\<rparr>) ref #
        (case fetch_impl ev (ctx\<lparr>ctx_lease := Some (next_lease w)\<rparr>) mc ref 0 of
           Inl err \<Rightarrow> []
         | Inr img \<Rightarrow> [CreateImage (ctx\<lparr>ctx_lease := Some (next_lease w)\<rparr>) img]) @
        [LeaseDelete (next_lease w)]"
    by (simp add: Fetch_events)
next
  show "filter is_lease_call (events_since w' (snd (Push ev' c' ctx' ref' desc opts' w'))) = []"
    by (simp add: Push_events split: sum.splits)
qed


theorem Fetch_lease_scope_exact_witness:
  "apply_remote_opts client0 [opt_fails] (defaultRemoteContext env0) = Inl (Foreign ''bad option'') \<and>
   Fetch env0 client0 Background ''example.com/repo:tag'' [opt_fails] world0 =
     (Inl (Foreign ''bad option''), world0) \<and>
   apply_remote_opts client0 [opt_unpack] (defaultRemoteContext env0) =
     Inr ((defaultRemoteContext env0)\<lparr>Unpack := True\<rparr>) \<and>
   snd (Fetch env0 client0 Background ''example.com/repo:tag'' [opt_unpack] world0) = world0 \<and>
   fetch_platform_matcher env_parse_fails
     ((defaultRemoteContext env_parse_fails)\<lparr>Platforms := [''bogus'']\<rparr>) = Inl ErrInvalidArgument \<and>
   Fetch env_parse_fails client0 Background ''example.com/repo:tag'' [opt_platforms] world0 =
     (Inl ErrInvalidArgument, world0) \<and>
   leases_Create env_lease_refused (LeasesService client0) Background =
     Some (Foreign ''lease refused'') \<and>
   fst (Fetch env_lease_refused client0 Background ''example.com/repo:tag'' [] world0) =
     Inl (Foreign ''lease refused'') \<and>
   events_since world0
     (snd (Fetch env_lease_refused client0 Background ''example.com/repo:tag'' [] world0)) =
     [LeaseCreateFailed] \<and>
   leases_Create env_fetch_fails (LeasesService client0) Background = None \<and>
   one_lease_held (events_since world0
     (snd (Fetch env_fetch_fails client0 Background ''example.com/repo:tag'' [] world0))) \<and>
   events_since world0
     (snd (Fetch env_fetch_fails client0 Background ''example.com/repo:tag'' [] world0)) =
     [LeaseCreate 0, FetchContent (Background\<lparr>ctx_lease := Some 0\<rparr>) ''example.com/repo:tag'',
      LeaseDelete 0]"
proof -
  let ?ref = "''example.com/repo:tag''"
  have h1: "apply_remote_opts client0 [opt_fails] (defaultRemoteContext env0) =
      Inl (Foreign ''bad option'')"
    by (simp add: opt_fails_def)
  have c1: "Fetch env0 client0 Background ?ref [opt_fails] world0 =
      (Inl (Foreign ''bad option''), world0)"
    using Fetch_lease_scope_exact [where c = client0 and opts = "[opt_fails]" and ev = env0
        and e = "Foreign ''bad option''" and ctx = Background and ref = ?ref and w = world0] h1
    by blast
  have h2: "apply_remote_opts client0 [opt_unpack] (defaultRemoteContext env0) =
      Inr ((defaultRemoteContext env0)\<lparr>Unpack := True\<rparr>)"
    by (simp add: opt_unpack_def)
  have u2: "Unpack ((defaultRemoteContext env0)\<lparr>Unpack := True\<rparr>)" by simp
  have c2: "snd (Fetch env0 client0 Background ?ref [opt_unpack] world0) = world0"
    using Fetch_lease_scope_exact [where c = client0 and opts = "[opt_unpack]" and ev = env0
        and fc = "(defaultRemoteContext env0)\<lparr>Unpack := True\<rparr>"
        and ctx = Background and ref = ?ref and w = world0] h2 u2
    by blast
  have h3: "apply_remote_opts client0 [opt_platforms] (defaultRemoteContext env_parse_fails) =
      Inr ((defaultRemoteContext env_parse_fails)\<lparr>Platforms := [''bogus'']\<rparr>)"
    by (simp add: opt_platforms_def)
  have u3: "\<not> Unpack ((defaultRemoteContext env_parse_fails)\<lparr>Platforms := [''bogus'']\<rparr>)"
    by (simp add: defaultRemoteContext_def)
  have p3: "fetch_platform_matcher env_parse_fails
      ((defaultRemoteContext env_parse_fails)\<lparr>Platforms := [''bogus'']\<rparr>) = Inl ErrInvalidArgument"
    by (simp add: fetch_platform_matcher_def defaultRemoteContext_def env_parse_fails_def)
  have c3: "Fetch env_parse_fails client0 Background ?ref [opt_platforms] world0 =
      (Inl ErrInvalidArgument, world0)"
    using Fetch_lease_scope_exact [where c = client0 and opts = "[opt_platforms]"
        and ev = env_parse_fails
        and fc = "(defaultRemoteContext env_parse_fails)\<lparr>Platforms := [''bogus'']\<rparr>"
        and e = ErrInvalidArgument and ctx = Background and ref = ?ref and w = world0] h3 u3 p3
    by blast
  have h4: "apply_remote_opts client0 [] (defaultRemoteContext env_lease_refused) =
      Inr (defaultRemoteContext env_lease_refused)"
    by simp
  have u4: "\<not> Unpack (defaultRemoteContext env_lease_refused)"
    by (simp add: defaultRemoteContext_def)
  have p4: "fetch_platform_matcher env_lease_refused (defaultRemoteContext env_lease_refused) =
      Inr ((defaultRemoteContext env_lease_refused)\<lparr>PlatformMatcher := Some MatchAll\<rparr>)"
    by (simp add: fetch_platform_matcher_def defaultRemoteContext_def)
  have l4: "leases_Create env_lease_refused (LeasesService client0) Background =
      Some (Foreign ''lease refused'')"
    by (simp add: env_lease_refused_def)
  have c4: "fst (Fetch env_lease_refused client0 Background ?ref [] world0) =
        Inl (Foreign ''lease refused'') \<and>
      events_since world0 (snd (Fetch env_lease_refused client0 Background ?ref [] world0)) =
        [LeaseCreateFailed]"
    using Fetch_lease_scope_exact [where c = client0 and opts = "[]" and ev = env_lease_refused
        and fc = "defaultRemoteContext env_lease_refused"
        and mc = "(defaultRemoteContext env_lease_refused)\<lparr>PlatformMatcher := Some MatchAll\<rparr>"
        and e = "Foreign ''lease refused''" and ctx = Background and ref = ?ref and w = world0]
      h4 u4 p4 l4
    by blast
  have h5: "apply_remote_opts client0 [] (defaultRemoteContext env_fetch_fails) =
      Inr (defaultRemoteContext env_fetch_fails)"
    by simp
  have u5: "\<not> Unpack (defaultRemoteContext env_fetch_fails)"
    by (simp add: defaultRemoteContext_def)
  have p5: "fetch_platform_matcher env_fetch_fails (defaultRemoteContext env_fetch_fails) =
      Inr ((defaultRemoteContext env_fetch_fails)\<lparr>PlatformMatcher := Some MatchAll\<rparr>)"
    by (simp add: fetch_platform_matcher_def defaultRemoteContext_def)
  have l5: "leases_Create env_fetch_fails (LeasesService client0) Background = None"
    by (simp add: env_fetch_fails_def env0_def)
  have f5: "\<And>cx rx r l. fetch_impl env_fetch_fails cx rx r l = Inl (Foreign ''connection reset'')"
    by (simp add: env_fetch_fails_def)
  have c5: "one_lease_held
        (events_since world0 (snd (Fetch env_fetch_fails client0 Background ?ref [] world0))) \<and>
      events_since world0 (snd (Fetch env_fetch_fails client0 Background ?ref [] world0)) =
        LeaseCreate (next_lease world0) #
        FetchContent (Background\<lparr>ctx_lease := Some (next_lease world0)\<rparr>) ?ref #
        (case fetch_impl env_fetch_fails (Background\<lparr>ctx_lease := Some (next_lease world0)\<rparr>)
                ((defaultRemoteContext env_fetch_fails)\<lparr>PlatformMatcher := Some MatchAll\<rparr>)
                ?ref 0 of
           Inl err \<Rightarrow> []
         | Inr img \<Rightarrow> [CreateImage (Background\<lparr>ctx_lease := Some (next_lease world0)\<rparr>) img]) @
        [LeaseDelete (next_lease world0)]"
    using Fetch_lease_scope_exact [where c = client0 and opts = "[]" and ev = env_fetch_fails
        and fc = "defaultRemoteContext env_fetch_fails"
        and mc = "(defaultRemoteContext env_fetch_fails)\<lparr>PlatformMatcher := Some MatchAll\<rparr>"
        and ctx = Background and ref = ?ref and w = world0]
      h5 u5 p5 l5
    by blast
  have n0: "next_lease world0 = 0" by (simp add: world0_def)
  from c5 have c5': "one_lease_held
        (events_since world0 (snd (Fetch env_fetch_fails client0 Background ?ref [] world0)))"
    by blast
  from c5 have "events_since world0 (snd (Fetch env_fetch_fails client0 Background ?ref [] world0)) =
        LeaseCreate (next_lease world0) #
        FetchContent (Background\<lparr>ctx_lease := Some (next_lease world0)\<rparr>) ?ref #
        (case fetch_impl env_fetch_fails (Background\<lparr>ctx_lease := Some (next_lease world0)\<rparr>)
                ((defaultRemoteContext env_fetch_fails)\<lparr>PlatformMatcher := Some MatchAll\<rparr>)
                ?ref 0 of
           Inl err \<Rightarrow> []
         | Inr img \<Rightarrow> [CreateImage (Background\<lparr>ctx_lease := Some (next_lease world0)\<rparr>) img]) @
        [LeaseDelete (next_lease world0)]"
    by blast
  then have c5'': "events_since world0 (snd (Fetch env_fetch_fails client0 Background ?ref [] world0)) =
        [LeaseCreate 0, FetchContent (Background\<lparr>ctx_lease := Some 0\<rparr>) ?ref, LeaseDelete 0]"
    by (simp add: f5 n0)
  from h1 c1 h2 c2 p3 c3 l4 c4 l5 c5' c5'' show ?thesis by simp
qed


subsection \<open>The checkpoint index\<close>

text \<open>
  C8. The claim names the key \<open>gc.ref.content.<i>\<close>; the label map has no such key,
  here for an index of two manifests.
\<close>

theorem gc_ref_label_key_counterexample:
  "index_labels index0 (''gc.ref.content.'' @ Itoa 0) = None \<and>
   index_labels index0 (''gc.ref.content.'' @ Itoa 0) \<noteq> Some (Digest (Manifests index0 ! 0))"
  by (simp add: index_labels_def index0_def gc_ref_key_def)

text \<open>
  C8, as amended. The label map of an index has exactly one key per manifest entry, the
  key of entry \<open>i\<close> being \<open>containerd.io/gc.ref.content.\<close> followed by \<open>i\<close> in decimal,
  and maps it to the digest of that entry. When the index marshals to JSON, writeIndex
  makes one content write, of the marshalled bytes with the index media type and that
  label map; when marshalling fails it writes nothing and returns the error.
\<close>

theorem writeIndex_gc_ref_labels:
  "dom (index_labels index) = gc_ref_key ` {..< length (Manifests index)} \<and>
   card (dom (index_labels index)) = length (Manifests index) \<and>
   (\<forall>i < length (Manifests index).
      index_labels index (gc_ref_key i) = Some (Digest (Manifests index ! i))) \<and>
   (json_Marshal ev index = Inr data \<longrightarrow>
      events_since w (snd (writeIndex ev index client ref w)) =
        [WriteContent (ContentStore client) MediaTypeImageIndex ref data (index_labels index)]) \<and>
   (json_Marshal ev index = Inl err \<longrightarrow> writeIndex ev index client ref w = (Inl err, w))"
proof (intro conjI allI impI)
  show "dom (index_labels index) = gc_ref_key ` {..< length (Manifests index)}"
    by (rule index_labels_dom)
  show "card (dom (index_labels index)) = length (Manifests index)"
    by (rule index_labels_card)
  show "index_labels index (gc_ref_key i) = Some (Digest (Manifests index ! i))"
    if "i < length (Manifests index)" for i
    using that by (rule index_labels_at)
  show "events_since w (snd (writeIndex ev index client ref w)) =
        [WriteContent (ContentStore client) MediaTypeImageIndex ref data (index_labels index)]"
    if "json_Marshal ev index = Inr data"
    using that by (simp add: writeIndex_def events_since_def emit_def Let_def)
  show "writeIndex ev index client ref w = (Inl err, w)"
    if "json_Marshal ev index = Inl err"
    using that by (simp add: writeIndex_def)
qed

theorem writeIndex_gc_ref_labels_witness:
  "length (Manifests index0) = 2 \<and> json_Marshal env0 index0 = Inr ''{}'' \<and>
   index_labels index0 ''containerd.io/gc.ref.content.0'' = Some ''sha256:abc'' \<and>
   index_labels index0 ''containerd.io/gc.ref.content.1'' = Some ''sha256:def'' \<and>
   card (dom (index_labels index0)) = 2 \<and>
   events_since world0 (snd (writeIndex env0 index0 client0 ''checkpoint'' world0)) =
     [WriteContent (Remote (Some 0)) ''application/vnd.oci.image.index.v1+json'' ''checkpoint''
        ''{}'' (index_labels index0)]"
proof -
  have k0: "gc_ref_key 0 = ''containerd.io/gc.ref.content.0''"
    by (simp add: gc_ref_key_def Itoa.simps [of 0] Itoa.simps [of 1] digit_char_def)
  have k1: "gc_ref_key (Suc 0) = ''containerd.io/gc.ref.content.1''"
    by (simp add: gc_ref_key_def Itoa.simps [of "Suc 0"] digit_char_def)
  have len: "length (Manifests index0) = 2" by (simp add: index0_def)
  have js: "json_Marshal env0 index0 = Inr ''{}''" by (simp add: env0_def)
  have cs: "ContentStore client0 = Remote (Some 0)"
    by (simp add: ContentStore_def client0_def no_services_def)
  note th = writeIndex_gc_ref_labels [of index0 env0 "''{}''" world0 client0 "''checkpoint''"]
  from th have "card (dom (index_labels index0)) = length (Manifests index0)" by blast
  then have a: "card (dom (index_labels index0)) = 2" by (simp only: len)
  from th have b: "\<forall>i < length (Manifests index0).
      index_labels index0 (gc_ref_key i) = Some (Digest (Manifests index0 ! i))" by blast
  from th js have c: "events_since world0 (snd (writeIndex env0 index0 client0 ''checkpoint'' world0)) =
        [WriteContent (ContentStore client0) MediaTypeImageIndex ''checkpoint'' ''{}''
           (index_labels index0)]" by blast
  from b len have "index_labels index0 (gc_ref_key 0) = Some (Digest (Manifests index0 ! 0))"
    and "index_labels index0 (gc_ref_key (Suc 0)) = Some (Digest (Manifests index0 ! Suc 0))"
    by simp_all
  then have "index_labels index0 ''containerd.io/gc.ref.content.0'' = Some ''sha256:abc''"
    and "index_labels index0 ''containerd.io/gc.ref.content.1'' = Some ''sha256:def''"
    by (simp_all add: k0 k1 index0_def desc0_def desc1_def)
  with a c len js cs show ?thesis by (simp add: MediaTypeImageIndex_def)
qed


end
